theory Spec2Isabelle
  imports Main "HOL-Library.Sublist" "HOL-Library.Char_ord" "HOL-Library.List_Lexorder"
    "HOL-Library.Word"
begin

section \<open>JavaScript strings\<close>

text \<open>
  A JavaScript string is modelled as a \<^typ>\<open>string\<close>: a list of code units below 256.
  Within that range the line terminators of ECMAScript are line feed and carriage return,
  and its white space is tab, line feed, vertical tab, form feed, carriage return, space
  and no-break space.
\<close>

definition isLineTerminator :: "char \<Rightarrow> bool" where
  "isLineTerminator c = (c = CHR 0x0A \<or> c = CHR 0x0D)"

definition isWhiteSpace :: "char \<Rightarrow> bool" where
  "isWhiteSpace c = (c = CHR 0x09 \<or> c = CHR 0x0A \<or> c = CHR 0x0B \<or> c = CHR 0x0C
     \<or> c = CHR 0x0D \<or> c = CHR 0x20 \<or> c = CHR 0xA0)"

text \<open>The class \<open>\w\<close>: letters, digits and underscore.\<close>

definition isWordChar :: "char \<Rightarrow> bool" where
  "isWordChar c = (let n = (of_char c :: nat) in
     (48 \<le> n \<and> n \<le> 57) \<or> (65 \<le> n \<and> n \<le> 90) \<or> n = 95 \<or> (97 \<le> n \<and> n \<le> 122))"

text \<open>The class \<open>[a-f0-9]\<close>.\<close>

definition isLowerHex :: "char \<Rightarrow> bool" where
  "isLowerHex c = (let n = (of_char c :: nat) in
     (48 \<le> n \<and> n \<le> 57) \<or> (97 \<le> n \<and> n \<le> 102))"

text \<open>\<open>String.prototype.trim\<close>: white space and line terminators go, at both ends.\<close>

definition trim :: "string \<Rightarrow> string" where
  "trim s = rev (dropWhile isWhiteSpace (rev (dropWhile isWhiteSpace s)))"

text \<open>\<open>String.prototype.includes\<close>: the argument occurs as a contiguous substring.\<close>

definition includesText :: "string \<Rightarrow> string \<Rightarrow> bool" where
  "includesText s sub = sublist sub s"

text \<open>\<open>Array.prototype.join\<close>.\<close>

fun join :: "string \<Rightarrow> string list \<Rightarrow> string" where
  "join sep [] = []"
| "join sep [x] = x"
| "join sep (x # y # ys) = x @ sep @ join sep (y # ys)"

text \<open>
  \<open>String.prototype.split\<close> with a separator that is a fixed, non-empty text (a string, or
  a regular expression without operators such as \<open>/\n---\n/\<close>): the text is cut at the
  leftmost occurrences of the separator, which do not overlap. \<open>cur\<close> is the piece read so
  far.
\<close>

fun splitAt :: "string \<Rightarrow> string \<Rightarrow> string \<Rightarrow> string list" where
  "splitAt sep cur [] = [cur]"
| "splitAt sep cur (c # cs) =
     (if sep \<noteq> [] \<and> prefix sep (c # cs)
      then cur # splitAt sep [] (drop (length sep - 1) cs)
      else splitAt sep (cur @ [c]) cs)"

definition split :: "string \<Rightarrow> string \<Rightarrow> string list" where
  "split sep s = splitAt sep [] s"

section \<open>Global replacement by a regular expression\<close>

text \<open>
  \<open>String.prototype.replace\<close> with a regular expression that has the \<open>g\<close> flag scans the
  text from the left. A matcher stands for the expression at one position: given whether
  the position starts a line (what \<open>^\<close> tests under the \<open>m\<close> flag) and the text from the
  position on, it returns the replacement and the number of code units matched. None of
  the expressions below matches the empty text. Where the expression matches, the
  replacement is emitted and the scan goes on behind the match; elsewhere the code unit
  is copied. The counter is the number of code units of the current match still to be
  passed over.
\<close>

type_synonym matcher = "bool \<Rightarrow> string \<Rightarrow> (string \<times> nat) option"

fun replaceAll :: "matcher \<Rightarrow> nat \<Rightarrow> bool \<Rightarrow> string \<Rightarrow> string" where
  "replaceAll m k bol [] = []"
| "replaceAll m (Suc k) bol (c # cs) = replaceAll m k (isLineTerminator c) cs"
| "replaceAll m 0 bol (c # cs) =
     (case m bol (c # cs) of
        Some (out, n) \<Rightarrow> out @ replaceAll m (n - 1) (isLineTerminator c) cs
      | None \<Rightarrow> c # replaceAll m 0 (isLineTerminator c) cs)"

definition replace :: "matcher \<Rightarrow> string \<Rightarrow> string" where
  "replace m s = replaceAll m 0 True s"

text \<open>\<open>.*\<close> and \<open>.+\<close> at the end of an expression line: the rest of the line.\<close>

definition restOfLine :: "string \<Rightarrow> string" where
  "restOfLine s = takeWhile (\<lambda>c. \<not> isLineTerminator c) s"

text \<open>
  \<open>(.+?)\<close> followed by the fixed text \<open>pat\<close>: the shortest non-empty run of code units
  other than line terminators behind which \<open>pat\<close> stands. The result is the run and the
  text behind \<open>pat\<close>.
\<close>

fun lazyDots :: "string \<Rightarrow> string \<Rightarrow> string \<Rightarrow> (string \<times> string) option" where
  "lazyDots pat acc [] = None"
| "lazyDots pat acc (c # cs) =
     (if isLineTerminator c then None
      else if prefix pat cs then Some (acc @ [c], drop (length pat) cs)
      else lazyDots pat (acc @ [c]) cs)"

text \<open>
  The text before the first occurrence of the fixed text \<open>pat\<close> and the text behind that
  occurrence: what \<open>([\s\S]*?)\<close> followed by \<open>pat\<close> matches, and where
  \<open>String.prototype.replace\<close> finds a pattern that is a string.
\<close>

fun cutAt :: "string \<Rightarrow> string \<Rightarrow> string \<Rightarrow> (string \<times> string) option" where
  "cutAt pat acc [] = (if pat = [] then Some (acc, []) else None)"
| "cutAt pat acc (c # cs) =
     (if prefix pat (c # cs) then Some (acc, drop (length pat) (c # cs))
      else cutAt pat (acc @ [c]) cs)"

section \<open>The slide compiler: \<open>markdownToSlides\<close>\<close>

subsection \<open>Headers\<close>

text \<open>\<open>/^### (.+)$/gm\<close>, \<open>/^## (.+)$/gm\<close> and \<open>/^# (.+)$/gm\<close>, each replaced by
  \<open><hN>$1</hN>\<close>; \<open>marks\<close> is the run of hashes with the space, \<open>tag\<close> the element name.\<close>

definition header :: "string \<Rightarrow> string \<Rightarrow> matcher" where
  "header marks tag bol s =
     (let line = restOfLine (drop (length marks) s) in
      if bol \<and> prefix marks s \<and> line \<noteq> []
      then Some (''<'' @ tag @ ''>'' @ line @ ''</'' @ tag @ ''>'', length marks + length line)
      else None)"

subsection \<open>Mermaid diagrams and code blocks\<close>

text \<open>\<open>/```mermaid\n([\s\S]*?)```/g\<close>, replaced by a function of the captured code.\<close>

definition mermaid :: matcher where
  "mermaid bol s =
     (if prefix ''```mermaid\<newline>'' s then
        (case cutAt ''```'' [] (drop 11 s) of
           None \<Rightarrow> None
         | Some (code, rest) \<Rightarrow>
             Some (''<div class=\"mermaid fragment\">'' @ trim code @ ''</div>'',
                   length s - length rest))
      else None)"

text \<open>
  \<open>escapeHtml\<close> assigns the text to \<open>textContent\<close> of a fresh element and reads
  \<open>innerHTML\<close> back: the HTML serialisation of a text node, which escapes the ampersand,
  the no-break space and the two angle brackets.
\<close>

fun escapeHtml :: "string \<Rightarrow> string" where
  "escapeHtml [] = []"
| "escapeHtml (c # cs) =
     (if c = CHR ''&'' then ''&amp;''
      else if c = CHR 0xA0 then ''&nbsp;''
      else if c = CHR ''<'' then ''&lt;''
      else if c = CHR ''>'' then ''&gt;''
      else [c]) @ escapeHtml cs"

text \<open>\<open>/```(\w+)?\n([\s\S]*?)```/g\<close>, replaced by a function of the language and the
  code. The language group takes the longest run of word characters; when the run is
  empty the group is undefined and no class is written.\<close>

definition codeBlock :: matcher where
  "codeBlock bol s =
     (if prefix ''```'' s then
        (let lang = takeWhile isWordChar (drop 3 s);
             s1 = dropWhile isWordChar (drop 3 s) in
         if prefix ''\<newline>'' s1 then
           (case cutAt ''```'' [] (drop 1 s1) of
              None \<Rightarrow> None
            | Some (code, rest) \<Rightarrow>
                (let langClass = (if lang \<noteq> [] then '' class=\"language-'' @ lang @ ''\"'' else [])
                 in Some (''<pre><code'' @ langClass @ ''>'' @ escapeHtml (trim code) @ ''</code></pre>'',
                          length s - length rest)))
         else None)
      else None)"

subsection \<open>Inline code, bold, italic\<close>

text \<open>\<open>/`([^`]+)`/g\<close>, replaced by \<open><code>$1</code>\<close>.\<close>

definition inlineCode :: matcher where
  "inlineCode bol s =
     (if prefix ''`'' s then
        (let body = takeWhile (\<lambda>c. c \<noteq> CHR ''`'') (drop 1 s);
             s1 = dropWhile (\<lambda>c. c \<noteq> CHR ''`'') (drop 1 s) in
         if body \<noteq> [] \<and> prefix ''`'' s1
         then Some (''<code>'' @ body @ ''</code>'', length body + 2)
         else None)
      else None)"

text \<open>\<open>/\*\*(.+?)\*\*/g\<close>, replaced by \<open><strong>$1</strong>\<close>.\<close>

definition bold :: matcher where
  "bold bol s =
     (if prefix ''**'' s then
        (case lazyDots ''**'' [] (drop 2 s) of
           None \<Rightarrow> None
         | Some (body, rest) \<Rightarrow> Some (''<strong>'' @ body @ ''</strong>'', length s - length rest))
      else None)"

text \<open>\<open>/\*(.+?)\*/g\<close>, replaced by \<open><em>$1</em>\<close>.\<close>

definition italic :: matcher where
  "italic bol s =
     (if prefix ''*'' s then
        (case lazyDots ''*'' [] (drop 1 s) of
           None \<Rightarrow> None
         | Some (body, rest) \<Rightarrow> Some (''<em>'' @ body @ ''</em>'', length s - length rest))
      else None)"

subsection \<open>Unordered lists\<close>

text \<open>
  \<open>/(?:^[ ]*- .*$\n?)+/gm\<close>. One round of the group, at the start of a line: spaces, the
  marker \<open>- \<close> and the rest of the line. The result is the line and the text behind it.
\<close>

definition listLine :: "string \<Rightarrow> (string \<times> string) option" where
  "listLine s =
     (let spaces = takeWhile (\<lambda>c. c = CHR '' '') s;
          s1 = dropWhile (\<lambda>c. c = CHR '' '') s in
      if prefix ''- '' s1
      then Some (spaces @ ''- '' @ restOfLine (drop 2 s1),
                 dropWhile (\<lambda>c. \<not> isLineTerminator c) (drop 2 s1))
      else None)"

text \<open>
  The whole match from the start of a line: rounds follow one another as long as the
  round before ended by consuming a line feed (\<open>\n?\<close>), which is what puts the next round
  at the start of a line. A trailing line feed belongs to the match. The empty result
  stands for no match.
\<close>

function listBlock :: "string \<Rightarrow> string" where
  "listBlock s =
     (case listLine s of
        None \<Rightarrow> []
      | Some (line, rest) \<Rightarrow>
          (case rest of
             [] \<Rightarrow> line
           | c # rest' \<Rightarrow> if c = CHR 0x0A then line @ [c] @ listBlock rest' else line))"
  by pat_completeness auto
termination
proof (relation "measure length")
  show "wf (measure length)" by simp
next
  fix s :: string and x2 x1 x2a x21 x22
  assume a: "listLine s = Some x2" "(x1, x2a) = x2" "x2a = x21 # x22"
  let ?s1 = "dropWhile (\<lambda>c. c = CHR '' '') s"
  from a have p: "prefix ''- '' ?s1"
    and r: "x21 # x22 = dropWhile (\<lambda>c. \<not> isLineTerminator c) (drop 2 ?s1)"
    by (auto simp: listLine_def Let_def split: if_splits)
  from p have "2 \<le> length ?s1"
    by (auto simp: prefix_def)
  moreover have "length (x21 # x22) \<le> length (drop 2 ?s1)"
    unfolding r by (rule length_dropWhile_le)
  moreover have "length ?s1 \<le> length s"
    by (rule length_dropWhile_le)
  ultimately show "(x22, s) \<in> measure length" by simp
qed

declare listBlock.simps [simp del]

text \<open>The items of the source: \<open>{ indent: number; text: string }\<close>, the field \<open>text\<close>
  under the name \<open>itemText\<close>.\<close>

record item =
  indent :: nat
  itemText :: string

text \<open>
  \<open>parseList\<close>. \<open>parseLoop\<close> is the \<open>while\<close> loop: its first argument is the part of
  \<open>items\<close> from index \<open>i\<close> on, its result what the loop appends to \<open>result\<close> from there.
  The inner loop collects \<open>nestedItems\<close>, the items that follow with an indent greater
  than \<open>expectedIndent = depth * 2\<close>, and the outer loop goes on behind them.
\<close>

function parseLoop :: "item list \<Rightarrow> nat \<Rightarrow> string" where
  "parseLoop [] depth = []"
| "parseLoop (it # rest) depth =
     (if indent it = depth * 2 then
        (if length (takeWhile (\<lambda>x. indent x > depth * 2) rest) > 0
         then ''<li class=\"fragment\">'' @ itemText it @ ''\<newline>''
              @ (''<ul>\<newline>''
                 @ parseLoop (takeWhile (\<lambda>x. indent x > depth * 2) rest) (depth + 1)
                 @ ''</ul>'')
              @ ''</li>\<newline>''
         else ''<li class=\"fragment\">'' @ itemText it @ ''</li>\<newline>'')
        @ parseLoop (dropWhile (\<lambda>x. indent x > depth * 2) rest) depth
      else parseLoop rest depth)"
  by pat_completeness auto
termination
  by (relation "measure (\<lambda>(items, depth). length items)")
     (auto simp: less_Suc_eq_le length_dropWhile_le intro: le_trans [OF length_takeWhile_le])

definition parseList :: "item list \<Rightarrow> nat \<Rightarrow> string" where
  "parseList items depth = ''<ul>\<newline>'' @ parseLoop items depth @ ''</ul>''"

text \<open>\<open>line.match(/^[ ]*- /)\<close>, the filter of the lines of a block.\<close>

definition isListLine :: "string \<Rightarrow> bool" where
  "isListLine line = prefix ''- '' (dropWhile (\<lambda>c. c = CHR '' '') line)"

text \<open>
  \<open>line.match(/^([ ]*)- (.*)$/)\<close> and the item made of it. Without the \<open>m\<close> flag \<open>$\<close> is
  the end of the text, so the text behind the marker must be free of line terminators;
  without a match the item is \<open>{ indent: 0, text: '' }\<close>.
\<close>

definition toItem :: "string \<Rightarrow> item" where
  "toItem line =
     (let spaces = takeWhile (\<lambda>c. c = CHR '' '') line;
          s1 = dropWhile (\<lambda>c. c = CHR '' '') line in
      if prefix ''- '' s1 \<and> restOfLine (drop 2 s1) = drop 2 s1
      then \<lparr> indent = length spaces, itemText = drop 2 s1 \<rparr>
      else \<lparr> indent = 0, itemText = [] \<rparr>)"

text \<open>The replacement function of the list expression.\<close>

definition listToHtml :: "string \<Rightarrow> string" where
  "listToHtml block =
     (let lines = filter isListLine (split ''\<newline>'' block);
          items = map toItem lines
      in parseList items 0)"

definition unorderedList :: matcher where
  "unorderedList bol s =
     (let block = listBlock s in
      if bol \<and> block \<noteq> [] then Some (listToHtml block, length block) else None)"

subsection \<open>Links and images\<close>

text \<open>\<open>/\[(.+?)\]\((.+?)\)/g\<close>, replaced by \<open><a href="$2">$1</a>\<close>.\<close>

definition link :: matcher where
  "link bol s =
     (if prefix ''['' s then
        (case lazyDots '']('' [] (drop 1 s) of
           None \<Rightarrow> None
         | Some (label, s1) \<Rightarrow>
             (case lazyDots '')'' [] s1 of
                None \<Rightarrow> None
              | Some (url, rest) \<Rightarrow>
                  Some (''<a href=\"'' @ url @ ''\">'' @ label @ ''</a>'', length s - length rest)))
      else None)"

text \<open>\<open>/!\[(.+?)\]\((.+?)\)/g\<close>, replaced by
  \<open><img class="fragment" src="$2" alt="$1" />\<close>.\<close>

definition markdownImage :: matcher where
  "markdownImage bol s =
     (if prefix ''!['' s then
        (case lazyDots ''](''  [] (drop 2 s) of
           None \<Rightarrow> None
         | Some (alt, s1) \<Rightarrow>
             (case lazyDots '')'' [] s1 of
                None \<Rightarrow> None
              | Some (url, rest) \<Rightarrow>
                  Some (''<img class=\"fragment\" src=\"'' @ url @ ''\" alt=\"'' @ alt @ ''\" />'',
                        length s - length rest)))
      else None)"

text \<open>
  \<open>/<img(?![^>]*class="[^"]*fragment)([^>]*)>/g\<close>, replaced by
  \<open><img class="fragment"$1>\<close>. \<open>lookFragment\<close> is \<open>[^"]*fragment\<close> and \<open>lookClass\<close> is the
  whole expression of the lookahead, each tried at every length of its starred class.
\<close>

fun lookFragment :: "string \<Rightarrow> bool" where
  "lookFragment [] = False"
| "lookFragment (c # cs) =
     (prefix ''fragment'' (c # cs) \<or> (c \<noteq> CHR 0x22 \<and> lookFragment cs))"

fun lookClass :: "string \<Rightarrow> bool" where
  "lookClass [] = False"
| "lookClass (c # cs) =
     ((prefix ''class=\"'' (c # cs) \<and> lookFragment (drop 7 (c # cs)))
      \<or> (c \<noteq> CHR ''>'' \<and> lookClass cs))"

definition imgTag :: matcher where
  "imgTag bol s =
     (if prefix ''<img'' s \<and> \<not> lookClass (drop 4 s) then
        (let attrs = takeWhile (\<lambda>c. c \<noteq> CHR ''>'') (drop 4 s);
             s1 = dropWhile (\<lambda>c. c \<noteq> CHR ''>'') (drop 4 s) in
         if prefix ''>'' s1
         then Some (''<img class=\"fragment\"'' @ attrs @ ''>'', length attrs + 5)
         else None)
      else None)"

subsection \<open>Paragraphs\<close>

text \<open>\<open>/^(?!<[hupoli]|$)(.+)$/gm\<close>, replaced by \<open><p>$1</p>\<close>.\<close>

definition startsKnownTag :: "string \<Rightarrow> bool" where
  "startsKnownTag s =
     (case s of
        c # d # _ \<Rightarrow> c = CHR ''<'' \<and> d \<in> set ''hupoli''
      | _ \<Rightarrow> False)"

definition paragraphs :: matcher where
  "paragraphs bol s =
     (let line = restOfLine s in
      if bol \<and> \<not> startsKnownTag s \<and> line \<noteq> []
      then Some (''<p>'' @ line @ ''</p>'', length line)
      else None)"

subsection \<open>The compiler\<close>

text \<open>The function mapped over the slides: the chain of replacements on one slide.\<close>

definition slideToHtml :: "string \<Rightarrow> string" where
  "slideToHtml slideContent =
     (let html = trim slideContent;
          html = replace (header ''### '' ''h3'') html;
          html = replace (header ''## '' ''h2'') html;
          html = replace (header ''# '' ''h1'') html;
          html = replace mermaid html;
          html = replace codeBlock html;
          html = replace inlineCode html;
          html = replace bold html;
          html = replace italic html;
          html = replace unorderedList html;
          html = replace link html;
          html = replace markdownImage html;
          html = replace imgTag html;
          html = replace paragraphs html
      in ''<section>'' @ html @ ''</section>'')"

definition slideSources :: "string \<Rightarrow> string list" where
  "slideSources markdown = split ''\<newline>---\<newline>'' markdown"

definition markdownToSlides :: "string \<Rightarrow> string" where
  "markdownToSlides markdown = join ''\<newline>'' (map slideToHtml (slideSources markdown))"

section \<open>The image store\<close>

text \<open>A \<open>Blob\<close>: its bytes and its \<open>type\<close>; \<open>blob.size\<close> is the number of bytes.\<close>

record Blob =
  blobBytes :: "8 word list"
  blobType :: string

definition blobSize :: "Blob \<Rightarrow> nat" where
  "blobSize b = length (blobBytes b)"

text \<open>The interface \<open>StoredImage\<close>; the field \<open>id\<close> under the name \<open>imgId\<close>.\<close>

record StoredImage =
  imgId :: string
  blob :: Blob
  mimeType :: string
  createdAt :: nat

text \<open>
  The object store \<open>images\<close> of the IndexedDB database, created with the key path \<open>id\<close>:
  the records in the order of their keys, one record for a key. \<open>put\<close> replaces the record
  that has the key of the new one, \<open>get\<close> returns the record of a key or nothing,
  \<open>delete\<close> removes it. Requests on the store succeed: a backend that fails is outside this
  model.
\<close>

type_synonym objectStore = "StoredImage list"

definition storePut :: "StoredImage \<Rightarrow> objectStore \<Rightarrow> objectStore" where
  "storePut img db = insort_key imgId img (filter (\<lambda>r. imgId r \<noteq> imgId img) db)"

definition storeGet :: "string \<Rightarrow> objectStore \<Rightarrow> StoredImage option" where
  "storeGet k db = find (\<lambda>r. imgId r = k) db"

definition storeGetAllKeys :: "objectStore \<Rightarrow> string list" where
  "storeGetAllKeys db = map imgId db"

definition storeGetAll :: "objectStore \<Rightarrow> StoredImage list" where
  "storeGetAll db = db"

definition storeDelete :: "string \<Rightarrow> objectStore \<Rightarrow> objectStore" where
  "storeDelete k db = filter (\<lambda>r. imgId r \<noteq> k) db"

text \<open>\<open>b.toString(16).padStart(2, '0')\<close> for a byte.\<close>

definition hexByte :: "8 word \<Rightarrow> string" where
  "hexByte b = [''0123456789abcdef'' ! (unat b div 16), ''0123456789abcdef'' ! (unat b mod 16)]"

text \<open>
  \<open>generateImageId\<close>. The digest \<open>crypto.subtle.digest('SHA-256', _)\<close> is a parameter, a
  function from the bytes of the blob to the bytes of the hash.
\<close>

definition generateImageId :: "(8 word list \<Rightarrow> 8 word list) \<Rightarrow> Blob \<Rightarrow> string" where
  "generateImageId digest b =
     (let hashArray = digest (blobBytes b);
          hashHex = concat (map hexByte hashArray)
      in ''img-'' @ take 16 hashHex)"

text \<open>
  \<open>storeImage\<close>. \<open>fetchBlob\<close> stands for \<open>fetch(dataUrl)\<close> followed by \<open>response.blob()\<close>, and
  gives nothing where the fetch is rejected; \<open>now\<close> is the value of \<open>Date.now()\<close>. The
  result is the error thrown, or the identifier returned and the store after the call.
\<close>

datatype storeError = FetchRejected

definition storeImage ::
  "(8 word list \<Rightarrow> 8 word list) \<Rightarrow> (string \<Rightarrow> Blob option) \<Rightarrow> nat \<Rightarrow> string \<Rightarrow> objectStore
     \<Rightarrow> storeError + (string \<times> objectStore)" where
  "storeImage digest fetchBlob now dataUrl db =
     (case fetchBlob dataUrl of
        None \<Rightarrow> Inl FetchRejected
      | Some b \<Rightarrow>
          (let ident = generateImageId digest b;
               img = \<lparr> imgId = ident, blob = b, mimeType = blobType b, createdAt = now \<rparr>
           in Inr (ident, storePut img db)))"

text \<open>
  \<open>getImage\<close>. \<open>readAsDataURL\<close> stands for the \<open>FileReader\<close> that turns the blob into a
  data URL.
\<close>

definition getImage :: "(Blob \<Rightarrow> string) \<Rightarrow> string \<Rightarrow> objectStore \<Rightarrow> string option" where
  "getImage readAsDataURL ident db =
     (case storeGet ident db of
        None \<Rightarrow> None
      | Some img \<Rightarrow> Some (readAsDataURL (blob img)))"

definition getAllImageIds :: "objectStore \<Rightarrow> string list" where
  "getAllImageIds db = storeGetAllKeys db"

definition deleteImage :: "string \<Rightarrow> objectStore \<Rightarrow> objectStore" where
  "deleteImage ident db = storeDelete ident db"

text \<open>
  \<open>cleanupUnusedImages\<close>: the loop over \<open>allIds\<close>, with the store and \<open>deletedCount\<close> passed
  along, and the function, which returns the count and the store after the call.
\<close>

fun cleanupLoop :: "string \<Rightarrow> string list \<Rightarrow> nat \<Rightarrow> objectStore \<Rightarrow> nat \<times> objectStore" where
  "cleanupLoop markdown [] deletedCount db = (deletedCount, db)"
| "cleanupLoop markdown (ident # ids) deletedCount db =
     (if \<not> includesText markdown ident
      then cleanupLoop markdown ids (deletedCount + 1) (deleteImage ident db)
      else cleanupLoop markdown ids deletedCount db)"

definition cleanupUnusedImages :: "string \<Rightarrow> objectStore \<Rightarrow> nat \<times> objectStore" where
  "cleanupUnusedImages markdown db = cleanupLoop markdown (getAllImageIds db) 0 db"

text \<open>\<open>getStorageSize\<close>: \<open>reduce\<close> over the records, from 0.\<close>

definition getStorageSize :: "objectStore \<Rightarrow> nat" where
  "getStorageSize db = foldl (\<lambda>sum img. sum + blobSize (blob img)) 0 (storeGetAll db)"

section \<open>Matches of a regular expression\<close>

text \<open>
  \<open>String.prototype.match\<close> and \<open>matchAll\<close> with a regular expression that has the \<open>g\<close>
  flag: the matches from the left, each search starting behind the match before. The
  function argument stands for the expression at one position and returns what is kept
  of the match and the number of code units matched; the counter is as in
  \<open>replaceAll\<close>.
\<close>

fun matchAll :: "(string \<Rightarrow> ('a \<times> nat) option) \<Rightarrow> nat \<Rightarrow> string \<Rightarrow> 'a list" where
  "matchAll m k [] = []"
| "matchAll m (Suc k) (c # cs) = matchAll m k cs"
| "matchAll m 0 (c # cs) =
     (case m (c # cs) of
        Some (x, n) \<Rightarrow> x # matchAll m (n - 1) cs
      | None \<Rightarrow> matchAll m 0 cs)"

text \<open>The elements of a list in the order of their first occurrence, as
  \<open>[...new Set(xs)]\<close> lists them.\<close>

definition uniqueInOrder :: "'a list \<Rightarrow> 'a list" where
  "uniqueInOrder xs = foldl (\<lambda>seen x. if x \<in> set seen then seen else seen @ [x]) [] xs"

section \<open>Resolving image identifiers in the preview\<close>

text \<open>\<open>/img-[a-f0-9]{16}/g\<close>.\<close>

definition imageIdRegex :: "string \<Rightarrow> (string \<times> nat) option" where
  "imageIdRegex s =
     (let hex = take 16 (drop 4 s) in
      if prefix ''img-'' s \<and> length hex = 16 \<and> list_all isLowerHex hex
      then Some (take 20 s, 20)
      else None)"

text \<open>
  \<open>resolveImages\<close>, up to the text it passes to \<open>setResolvedHtml\<close>. The loop body
  replaces every occurrence of the identifier when \<open>getImage\<close> returns a non-empty data
  URL; \<open>html.split(imageId).join(dataUrl)\<close> does the replacing.
\<close>

definition resolveStep :: "(Blob \<Rightarrow> string) \<Rightarrow> objectStore \<Rightarrow> string \<Rightarrow> string \<Rightarrow> string" where
  "resolveStep readAsDataURL db html imageId =
     (case getImage readAsDataURL imageId db of
        None \<Rightarrow> html
      | Some dataUrl \<Rightarrow> if dataUrl \<noteq> [] then join dataUrl (split imageId html) else html)"

definition resolveImages :: "(Blob \<Rightarrow> string) \<Rightarrow> objectStore \<Rightarrow> string \<Rightarrow> string" where
  "resolveImages readAsDataURL db slidesHtml =
     (let imageIds = uniqueInOrder (matchAll imageIdRegex 0 slidesHtml)
      in foldl (resolveStep readAsDataURL db) slidesHtml imageIds)"

text \<open>
  The effect of \<open>RevealPreview\<close> that depends on \<open>slidesHtml\<close>. Every new value of
  \<open>slidesHtml\<close> runs the effect, which starts a pass of \<open>resolveImages\<close>. The pass runs
  without interruption up to its first \<open>await\<close>: when \<open>imageIds\<close> is empty the loop body
  never runs and the pass calls \<open>setResolvedHtml\<close> at once, inside the effect; otherwise it
  is suspended at \<open>await getImage(imageId)\<close> for the first identifier. When the
  \<open>getImage\<close> a pass waits for settles, the pass does the rest of that round of the loop
  and either waits for the next identifier or, behind the last one, calls
  \<open>setResolvedHtml\<close>. A suspended pass holds its \<open>html\<close> and the identifiers still to
  fetch.
\<close>

record pass =
  passHtml :: string
  waitingFor :: "string list"

text \<open>
  The state of the component: the number of passes started, the suspended passes, each
  under the number of its start (the code itself numbers nothing), and \<open>resolvedHtml\<close>.
  An event is a new value of \<open>slidesHtml\<close>, or the settling of the \<open>getImage\<close> that the
  suspended pass of a number waits for; the store and the reader decide when that happens.
\<close>

record preview =
  started :: nat
  running :: "(nat \<times> pass) list"
  resolvedHtml :: string

datatype event = Start string | Settle nat

text \<open>\<open>useState(slidesHtml)\<close>: before any pass has completed.\<close>

definition initialPreview :: "string \<Rightarrow> preview" where
  "initialPreview slidesHtml = \<lparr> started = 0, running = [], resolvedHtml = slidesHtml \<rparr>"

fun previewStep :: "(Blob \<Rightarrow> string) \<Rightarrow> objectStore \<Rightarrow> preview \<Rightarrow> event \<Rightarrow> preview" where
  "previewStep readAsDataURL db st (Start slidesHtml) =
     (if uniqueInOrder (matchAll imageIdRegex 0 slidesHtml) = []
      then st \<lparr> started := started st + 1, resolvedHtml := slidesHtml \<rparr>
      else st \<lparr> started := started st + 1,
                running := running st
                  @ [(started st + 1,
                      \<lparr> passHtml = slidesHtml,
                        waitingFor = uniqueInOrder (matchAll imageIdRegex 0 slidesHtml) \<rparr>)] \<rparr>)"
| "previewStep readAsDataURL db st (Settle n) =
     (case map_of (running st) n of
        None \<Rightarrow> st
      | Some p \<Rightarrow>
          (case waitingFor p of
             [] \<Rightarrow> st
           | imageId # rest \<Rightarrow>
               if rest = []
               then st \<lparr> running := filter (\<lambda>q. fst q \<noteq> n) (running st),
                         resolvedHtml := resolveStep readAsDataURL db (passHtml p) imageId \<rparr>
               else st \<lparr> running :=
                           map (\<lambda>q. if fst q = n
                                     then (n, \<lparr> passHtml = resolveStep readAsDataURL db (passHtml p) imageId,
                                               waitingFor = rest \<rparr>)
                                     else q)
                               (running st) \<rparr>))"

text \<open>The component from a state through a sequence of events.\<close>

definition previewRun :: "(Blob \<Rightarrow> string) \<Rightarrow> objectStore \<Rightarrow> preview \<Rightarrow> event list \<Rightarrow> preview" where
  "previewRun readAsDataURL db st events = foldl (previewStep readAsDataURL db) st events"

section \<open>Export with inlined images\<close>

text \<open>
  \<open>String.prototype.replace\<close> with a pattern that is a string: the first occurrence of the
  pattern is replaced, and in the replacement text \<open>$$\<close> stands for a dollar sign, \<open>$&\<close>
  for the matched text, \<open>$`\<close> for the text before the match and \<open>$'\<close> for the text behind
  it. A pattern that is a string has no groups, so every other dollar sign stands for
  itself.
\<close>

fun getSubstitution :: "string \<Rightarrow> string \<Rightarrow> string \<Rightarrow> string \<Rightarrow> string" where
  "getSubstitution matched preceding following (c # d # cs) =
     (if c = CHR ''$'' \<and> d = CHR ''$'' then CHR ''$'' # getSubstitution matched preceding following cs
      else if c = CHR ''$'' \<and> d = CHR ''&'' then matched @ getSubstitution matched preceding following cs
      else if c = CHR ''$'' \<and> d = CHR 0x60 then preceding @ getSubstitution matched preceding following cs
      else if c = CHR ''$'' \<and> d = CHR 0x27 then following @ getSubstitution matched preceding following cs
      else c # getSubstitution matched preceding following (d # cs))"
| "getSubstitution matched preceding following cs = cs"

definition replaceString :: "string \<Rightarrow> string \<Rightarrow> string \<Rightarrow> string" where
  "replaceString s searchString replaceValue =
     (case cutAt searchString [] s of
        None \<Rightarrow> s
      | Some (preceding, following) \<Rightarrow>
          preceding @ getSubstitution searchString preceding following replaceValue @ following)"

text \<open>\<open>/!\[([^\]]*)\]\((img-[a-f0-9]+)\)/g\<close>; the match, the alternative text and the
  identifier are kept.\<close>

definition imageRefRegex :: "string \<Rightarrow> ((string \<times> string \<times> string) \<times> nat) option" where
  "imageRefRegex s =
     (let alt = takeWhile (\<lambda>c. c \<noteq> CHR '']'') (drop 2 s);
          s1 = dropWhile (\<lambda>c. c \<noteq> CHR '']'') (drop 2 s);
          hex = takeWhile isLowerHex (drop 6 s1);
          s2 = dropWhile isLowerHex (drop 6 s1);
          n = length alt + length hex + 9
      in if prefix ''!['' s \<and> prefix ''](img-'' s1 \<and> hex \<noteq> [] \<and> prefix '')'' s2
         then Some ((take n s, alt, ''img-'' @ hex), n)
         else None)"

text \<open>\<open>/src="(img-[a-f0-9]+)"/g\<close>; the match and the identifier are kept.\<close>

definition htmlImageRefRegex :: "string \<Rightarrow> ((string \<times> string) \<times> nat) option" where
  "htmlImageRefRegex s =
     (let hex = takeWhile isLowerHex (drop 9 s);
          s1 = dropWhile isLowerHex (drop 9 s);
          n = length hex + 10
      in if prefix ''src=\"img-'' s \<and> hex \<noteq> [] \<and> prefix ''\"'' s1
         then Some ((take n s, ''img-'' @ hex), n)
         else None)"

text \<open>\<open>exportWithInlinedImages\<close>: the two loops over the matches found in \<open>markdown\<close>.\<close>

definition inlineMarkdownRef ::
  "(Blob \<Rightarrow> string) \<Rightarrow> objectStore \<Rightarrow> string \<Rightarrow> string \<times> string \<times> string \<Rightarrow> string" where
  "inlineMarkdownRef readAsDataURL db result m =
     (case m of (fullMatch, alt, ident) \<Rightarrow>
        (case getImage readAsDataURL ident db of
           None \<Rightarrow> result
         | Some dataUrl \<Rightarrow>
             if dataUrl \<noteq> []
             then replaceString result fullMatch (''!['' @ alt @ '']('' @ dataUrl @ '')'')
             else result))"

definition inlineHtmlRef ::
  "(Blob \<Rightarrow> string) \<Rightarrow> objectStore \<Rightarrow> string \<Rightarrow> string \<times> string \<Rightarrow> string" where
  "inlineHtmlRef readAsDataURL db result m =
     (case m of (fullMatch, ident) \<Rightarrow>
        (case getImage readAsDataURL ident db of
           None \<Rightarrow> result
         | Some dataUrl \<Rightarrow>
             if dataUrl \<noteq> []
             then replaceString result fullMatch (''src=\"'' @ dataUrl @ ''\"'')
             else result))"

definition exportWithInlinedImages :: "(Blob \<Rightarrow> string) \<Rightarrow> objectStore \<Rightarrow> string \<Rightarrow> string" where
  "exportWithInlinedImages readAsDataURL db markdown =
     (let mdMatches = matchAll imageRefRegex 0 markdown;
          htmlMatches = matchAll htmlImageRefRegex 0 markdown;
          result = foldl (inlineMarkdownRef readAsDataURL db) markdown mdMatches;
          result = foldl (inlineHtmlRef readAsDataURL db) result htmlMatches
      in result)"

section \<open>Sample data\<close>

text \<open>
  A blob of the one byte \<open>0x61\<close>, under two types, for the examples below. Its SHA-256
  hash starts with \<open>ca978112ca1bbdca\<close>, and its Base64 text is \<open>YQ==\<close>: the sample
  functions give the digest, the fetched blob and the data URL of this blob.
\<close>

definition sampleDigest :: "8 word list \<Rightarrow> 8 word list" where
  "sampleDigest bytes =
     (if bytes = [0x61]
      then [0xca, 0x97, 0x81, 0x12, 0xca, 0x1b, 0xbd, 0xca, 0xfa, 0xc2, 0x31, 0xb3, 0x9a, 0x23,
            0xdc, 0x4d, 0xa7, 0x86, 0xef, 0xf8, 0x14, 0x7c, 0x4e, 0x72, 0xb9, 0x80, 0x77, 0x85,
            0xaf, 0xee, 0x48, 0xbb]
      else [])"

definition sampleFetch :: "string \<Rightarrow> Blob option" where
  "sampleFetch dataUrl =
     (if dataUrl = ''data:image/png;base64,YQ==''
      then Some \<lparr> blobBytes = [0x61], blobType = ''image/png'' \<rparr>
      else if dataUrl = ''data:image/jpeg;base64,YQ==''
      then Some \<lparr> blobBytes = [0x61], blobType = ''image/jpeg'' \<rparr>
      else None)"

definition sampleReader :: "Blob \<Rightarrow> string" where
  "sampleReader b = ''data:'' @ blobType b @ '';base64,YQ==''"

definition sampleStore :: objectStore where
  "sampleStore =
     [\<lparr> imgId = ''img-ca978112ca1bbdca'',
        blob = \<lparr> blobBytes = [0x61], blobType = ''image/png'' \<rparr>,
        mimeType = ''image/png'', createdAt = 1000 \<rparr>]"

section \<open>Properties of the text functions\<close>

lemma splitAt_nonempty: "splitAt sep cur s \<noteq> []"
  by (induction sep cur s rule: splitAt.induct) auto

lemma join_Cons: "join sep (x # xs) = x @ (if xs = [] then [] else sep @ join sep xs)"
  by (cases xs) auto

lemma prefix_drop_pred:
  assumes "sep \<noteq> []" "prefix sep (c # cs)"
  shows "c # cs = sep @ drop (length sep - 1) cs"
proof -
  from assms obtain zs where z: "c # cs = sep @ zs" by (auto simp: prefix_def)
  with assms(1) obtain sep' where s: "sep = c # sep'" by (cases sep) auto
  with z have "cs = sep' @ zs" by simp
  then have "drop (length sep - 1) cs = zs" using s by simp
  with z show ?thesis by simp
qed

lemma join_splitAt: "join sep (splitAt sep cur s) = cur @ s"
proof (induction sep cur s rule: splitAt.induct)
  case (1 sep cur)
  then show ?case by simp
next
  case (2 sep cur c cs)
  show ?case
  proof (cases "sep \<noteq> [] \<and> prefix sep (c # cs)")
    case True
    then have t: "sep \<noteq> []" "prefix sep (c # cs)"
      by simp_all
    then have e: "c # cs = sep @ drop (length sep - 1) cs"
      by (rule prefix_drop_pred)
    have "join sep (splitAt sep cur (c # cs))
        = cur @ sep @ join sep (splitAt sep [] (drop (length sep - 1) cs))"
      using True by (simp add: join_Cons splitAt_nonempty)
    also have "\<dots> = cur @ sep @ drop (length sep - 1) cs"
      using 2(1) True by simp
    finally show ?thesis using e by simp
  next
    case False
    then have "splitAt sep cur (c # cs) = splitAt sep (cur @ [c]) cs" by auto
    moreover have "join sep (splitAt sep (cur @ [c]) cs) = (cur @ [c]) @ cs"
      using False by (rule 2(2))
    ultimately show ?thesis by simp
  qed
qed

lemma splitAt_no_sep: "\<not> sublist sep s \<Longrightarrow> splitAt sep cur s = [cur @ s]"
proof (induction s arbitrary: cur)
  case Nil
  then show ?case by simp
next
  case (Cons c cs)
  then have "\<not> prefix sep (c # cs)" "\<not> sublist sep cs"
    by (auto simp: sublist_Cons_right)
  then show ?case using Cons.IH [of "cur @ [c]"] by simp
qed

lemma prefix_within:
  assumes "prefix sep (xs @ sep @ post)" "xs \<noteq> []"
  shows "prefix sep (xs @ butlast sep)"
proof (cases "sep = []")
  case True
  then show ?thesis by simp
next
  case False
  then have e: "xs @ sep @ post = (xs @ butlast sep) @ (last sep # post)"
    by simp
  have l: "length sep \<le> length (xs @ butlast sep)"
    using assms(2) by (cases xs) auto
  from assms(1) obtain zs where z: "xs @ sep @ post = sep @ zs"
    by (auto simp: prefix_def)
  have "take (length sep) (xs @ sep @ post) = sep"
    unfolding z by simp
  moreover have "take (length sep) (xs @ sep @ post) = take (length sep) (xs @ butlast sep)"
    unfolding e using l by simp
  ultimately have "take (length sep) (xs @ butlast sep) = sep"
    by simp
  moreover have "prefix (take (length sep) (xs @ butlast sep)) (xs @ butlast sep)"
    by (rule take_is_prefix)
  ultimately show ?thesis by simp
qed

lemma splitAt_first:
  assumes "sep \<noteq> []" "\<not> sublist sep (pre @ butlast sep)"
  shows "splitAt sep cur (pre @ sep @ post) = (cur @ pre) # splitAt sep [] post"
  using assms(2)
proof (induction pre arbitrary: cur)
  case Nil
  from assms(1) obtain c sep' where s: "sep = c # sep'" by (cases sep) auto
  then show ?case by simp
next
  case (Cons a pre)
  have np: "\<not> prefix sep (a # pre @ sep @ post)"
  proof
    assume "prefix sep (a # pre @ sep @ post)"
    then have "prefix sep ((a # pre) @ butlast sep)"
      using prefix_within [of sep "a # pre" post] by simp
    then have "sublist sep ((a # pre) @ butlast sep)"
      by (rule prefix_imp_sublist)
    with Cons.prems show False by simp
  qed
  have "\<not> sublist sep (pre @ butlast sep)"
    using Cons.prems by (auto simp: sublist_Cons_right)
  then show ?case using Cons.IH [of "cur @ [a]"] np by simp
qed

lemma last_dropWhile:
  assumes "dropWhile P xs \<noteq> []"
  shows "last (dropWhile P xs) = last xs"
proof -
  have "last (takeWhile P xs @ dropWhile P xs) = last (dropWhile P xs)"
    using assms by (rule last_appendR)
  then show ?thesis by simp
qed

lemma trim_trim: "trim (trim s) = trim s"
proof -
  let ?P = isWhiteSpace
  let ?d = "dropWhile ?P s"
  let ?u = "dropWhile ?P (rev ?d)"
  have a: "dropWhile ?P ?u = ?u" by (simp add: dropWhile_idem)
  have b: "dropWhile ?P (rev ?u) = rev ?u"
  proof (cases "?u = []")
    case True
    then show ?thesis by (simp only: rev.simps dropWhile.simps)
  next
    case False
    have d: "?d \<noteq> []"
    proof
      assume e: "?d = []"
      have "?u = []" unfolding e by simp
      with False show False by contradiction
    qed
    have "hd (rev ?u) = last ?u" using False by (simp add: hd_rev)
    also have "\<dots> = last (rev ?d)" using False by (rule last_dropWhile)
    also have "\<dots> = hd ?d" using d by (simp add: last_rev)
    finally have "hd (rev ?u) = hd ?d" .
    moreover have "\<not> ?P (hd ?d)" using d by (rule hd_dropWhile)
    ultimately show ?thesis by (simp add: dropWhile_eq_self_iff)
  qed
  show ?thesis unfolding trim_def using a b by simp
qed

section \<open>Properties of the list parser\<close>

lemma parseLoop_skip:
  "(\<And>it. it \<in> set skipped \<Longrightarrow> indent it \<noteq> depth * 2)
   \<Longrightarrow> parseLoop (skipped @ rest) depth = parseLoop rest depth"
  by (induction skipped) simp_all

lemma parseLoop_sibling:
  assumes "indent it = depth * 2"
    and "\<And>x. x \<in> set nested \<Longrightarrow> indent x > depth * 2"
    and "rest = [] \<or> indent (hd rest) \<le> depth * 2"
  shows "parseLoop (it # nested @ rest) depth
     = (if nested = [] then ''<li class=\"fragment\">'' @ itemText it @ ''</li>\<newline>''
        else ''<li class=\"fragment\">'' @ itemText it @ ''\<newline>''
             @ parseList nested (depth + 1) @ ''</li>\<newline>'')
       @ parseLoop rest depth"
proof -
  have r: "takeWhile (\<lambda>x. indent x > depth * 2) rest = []"
          "dropWhile (\<lambda>x. indent x > depth * 2) rest = rest"
    using assms(3) by (cases rest; simp)+
  have t: "takeWhile (\<lambda>x. indent x > depth * 2) (nested @ rest) = nested"
    using assms(2) r by (simp add: takeWhile_append2)
  have d: "dropWhile (\<lambda>x. indent x > depth * 2) (nested @ rest) = rest"
    using assms(2) r by (simp add: dropWhile_append2)
  show ?thesis
    using assms(1) t d by (simp add: parseList_def)
qed

section \<open>Properties of the image store\<close>

lemma foldl_add_sum: "foldl (\<lambda>sum x. sum + f x) (a::nat) xs = a + sum_list (map f xs)"
  by (induction xs arbitrary: a) simp_all

lemma getStorageSize_sum: "getStorageSize db = sum_list (map (\<lambda>r. blobSize (blob r)) db)"
  by (simp add: getStorageSize_def storeGetAll_def foldl_add_sum)

lemma sum_list_insort_key:
  "sum_list (map g (insort_key f x xs)) = (g x :: nat) + sum_list (map g xs)"
  by (induction xs) simp_all

lemma map_insort_key: "map f (insort_key f x xs) = insort_key (\<lambda>k. k) (f x) (map f xs)"
  by (induction xs) simp_all

lemma filter_eq_insort_key:
  "filter (\<lambda>r. f r = f a) (insort_key f a xs) = a # filter (\<lambda>r. f r = f a) xs"
  by (induction xs) auto

lemma storePut_twice:
  "imgId b = imgId a \<Longrightarrow> storePut b (storePut a db) = storePut b db"
  by (simp add: storePut_def filter_insort_triv)

lemma storePut_keys:
  "imgId b = imgId a \<Longrightarrow> map imgId (storePut b db) = map imgId (storePut a db)"
  by (simp add: storePut_def map_insort_key)

lemma storePut_size:
  "getStorageSize (storePut a db)
     = blobSize (blob a)
       + sum_list (map (\<lambda>r. blobSize (blob r)) (filter (\<lambda>r. imgId r \<noteq> imgId a) db))"
  by (simp add: getStorageSize_sum storePut_def sum_list_insort_key)

lemma storePut_one:
  "filter (\<lambda>r. imgId r = imgId a) (storePut a db) = [a]"
  by (simp add: storePut_def filter_eq_insort_key)

lemma storePut_others:
  "filter (\<lambda>r. imgId r \<noteq> imgId a) (storePut a db) = filter (\<lambda>r. imgId r \<noteq> imgId a) db"
  by (simp add: storePut_def filter_insort_triv)

lemma cleanupLoop_result:
  "cleanupLoop markdown ids n db
     = (n + length (filter (\<lambda>i. \<not> includesText markdown i) ids),
        filter (\<lambda>r. \<not> (imgId r \<in> set ids \<and> \<not> includesText markdown (imgId r))) db)"
proof (induction ids arbitrary: n db)
  case Nil
  then show ?case by simp
next
  case (Cons i ids)
  show ?case
  proof (cases "includesText markdown i")
    case True
    have "filter (\<lambda>r. \<not> (imgId r \<in> set (i # ids) \<and> \<not> includesText markdown (imgId r))) db
        = filter (\<lambda>r. \<not> (imgId r \<in> set ids \<and> \<not> includesText markdown (imgId r))) db"
      using True by (intro filter_cong) auto
    then show ?thesis using True Cons.IH [of n db] by simp
  next
    case False
    have "filter (\<lambda>r. \<not> (imgId r \<in> set ids \<and> \<not> includesText markdown (imgId r)))
            (filter (\<lambda>r. imgId r \<noteq> i) db)
        = filter (\<lambda>r. \<not> (imgId r \<in> set (i # ids) \<and> \<not> includesText markdown (imgId r))) db"
      using False by (simp add: filter_filter) (intro filter_cong, auto)
    then show ?thesis
      using False Cons.IH [of "n + 1" "deleteImage i db"]
      by (simp add: deleteImage_def storeDelete_def)
  qed
qed

lemma cleanup_result:
  "cleanupUnusedImages markdown db
     = (length (filter (\<lambda>r. \<not> includesText markdown (imgId r)) db),
        filter (\<lambda>r. includesText markdown (imgId r)) db)"
proof -
  have "filter (\<lambda>r. \<not> (imgId r \<in> set (map imgId db) \<and> \<not> includesText markdown (imgId r))) db
      = filter (\<lambda>r. includesText markdown (imgId r)) db"
    by (intro filter_cong) auto
  moreover have "length (filter (\<lambda>i. \<not> includesText markdown i) (map imgId db))
      = length (filter (\<lambda>r. \<not> includesText markdown (imgId r)) db)"
    by (simp add: filter_map o_def)
  ultimately show ?thesis
    by (simp add: cleanupUnusedImages_def getAllImageIds_def storeGetAllKeys_def cleanupLoop_result)
qed

section \<open>The claims of the specification\<close>

text \<open>
  Claim C1. The document \<open>"# A\n\n- x\n  - y\n\n---\n\n# B\n"\<close> is cut into exactly two slide
  sources. In the first slide the header pass gives the level-1 heading \<open>A\<close> and the list
  pass replaces the two list lines by the list of the items \<open>x\<close> (indent 0) and \<open>y\<close>
  (indent 2): one top-level item \<open>x\<close> marked as a fragment, holding a nested list whose one
  item \<open>y\<close> is marked as a fragment. The second slide is the heading \<open>B\<close> and nothing else.
  The last equation is the whole output; in it the paragraph pass has wrapped the two
  lines of the first slide that begin with a closing tag.
\<close>

theorem compile_two_slides_example:
  "slideSources ''# A\<newline>\<newline>- x\<newline>  - y\<newline>\<newline>---\<newline>\<newline># B\<newline>''
     = [''# A\<newline>\<newline>- x\<newline>  - y\<newline>'', ''\<newline># B\<newline>'']
   \<and> replace unorderedList ''<h1>A</h1>\<newline>\<newline>- x\<newline>  - y''
     = ''<h1>A</h1>\<newline>\<newline>''
       @ parseList [\<lparr>indent = 0, itemText = ''x''\<rparr>, \<lparr>indent = 2, itemText = ''y''\<rparr>] 0
   \<and> parseList [\<lparr>indent = 0, itemText = ''x''\<rparr>, \<lparr>indent = 2, itemText = ''y''\<rparr>] 0
     = ''<ul>\<newline><li class=\"fragment\">x\<newline><ul>\<newline><li class=\"fragment\">y</li>\<newline></ul></li>\<newline></ul>''
   \<and> slideToHtml ''# A\<newline>\<newline>- x\<newline>  - y\<newline>''
     = ''<section><h1>A</h1>\<newline>\<newline><ul>\<newline><li class=\"fragment\">x\<newline><ul>\<newline><li class=\"fragment\">y</li>\<newline><p></ul></li></p>\<newline><p></ul></p></section>''
   \<and> slideToHtml ''\<newline># B\<newline>'' = ''<section><h1>B</h1></section>''
   \<and> markdownToSlides ''# A\<newline>\<newline>- x\<newline>  - y\<newline>\<newline>---\<newline>\<newline># B\<newline>''
     = ''<section><h1>A</h1>\<newline>\<newline><ul>\<newline><li class=\"fragment\">x\<newline><ul>\<newline><li class=\"fragment\">y</li>\<newline><p></ul></li></p>\<newline><p></ul></p></section>\<newline><section><h1>B</h1></section>''"
  by code_simp

text \<open>
  Claim C2, as the code has it. The document is cut at the occurrences of a line feed, three
  hyphens and a line feed, from the left and without overlap: the text before the first
  occurrence is the first slide source and the text behind it is cut in the same way.
  Blank lines around the line of hyphens are not required. Joining the slide sources with
  the delimiter gives the document back, there is always at least one slide source, and
  a document without the delimiter is one slide source. A slide is compiled from its
  trimmed source.
\<close>

theorem slides_split_at_delimiter:
  "slideSources markdown \<noteq> []
   \<and> join ''\<newline>---\<newline>'' (slideSources markdown) = markdown
   \<and> (\<not> includesText markdown ''\<newline>---\<newline>'' \<longrightarrow> slideSources markdown = [markdown])
   \<and> (\<not> includesText (first @ ''\<newline>---'') ''\<newline>---\<newline>'' \<longrightarrow>
        slideSources (first @ ''\<newline>---\<newline>'' @ rest) = first # slideSources rest)
   \<and> slideToHtml (trim source) = slideToHtml source"
proof -
  have a: "slideSources markdown \<noteq> []"
    by (simp add: slideSources_def split_def splitAt_nonempty)
  have b: "join ''\<newline>---\<newline>'' (slideSources markdown) = markdown"
    using join_splitAt [of "''\<newline>---\<newline>''" "[]" markdown]
    by (simp add: slideSources_def split_def)
  have c: "slideSources markdown = [markdown]" if "\<not> includesText markdown ''\<newline>---\<newline>''"
    using that splitAt_no_sep [of "''\<newline>---\<newline>''" markdown "[]"]
    by (simp add: slideSources_def split_def includesText_def)
  have d: "slideSources (first @ ''\<newline>---\<newline>'' @ rest) = first # slideSources rest"
    if "\<not> includesText (first @ ''\<newline>---'') ''\<newline>---\<newline>''"
  proof -
    have "\<not> sublist ''\<newline>---\<newline>'' (first @ butlast ''\<newline>---\<newline>'')"
      using that by (simp add: includesText_def)
    then have "splitAt ''\<newline>---\<newline>'' [] (first @ ''\<newline>---\<newline>'' @ rest)
                 = ([] @ first) # splitAt ''\<newline>---\<newline>'' [] rest"
      by (intro splitAt_first) simp_all
    then show ?thesis by (simp add: slideSources_def split_def)
  qed
  have e: "slideToHtml (trim source) = slideToHtml source"
    by (simp add: slideToHtml_def trim_trim)
  from a b c d e show ?thesis by blast
qed

theorem slides_split_at_delimiter_witness:
  "\<not> includesText ''# A'' ''\<newline>---\<newline>''
   \<and> slideSources ''# A'' = [''# A'']
   \<and> \<not> includesText (''a'' @ ''\<newline>---'') ''\<newline>---\<newline>''
   \<and> slideSources (''a'' @ ''\<newline>---\<newline>'' @ ''b\<newline>---\<newline>c'') = ''a'' # slideSources ''b\<newline>---\<newline>c''
   \<and> slideSources ''b\<newline>---\<newline>c'' = [''b'', ''c'']"
proof -
  have h1: "\<not> includesText ''# A'' ''\<newline>---\<newline>''" by code_simp
  have h2: "\<not> includesText (''a'' @ ''\<newline>---'') ''\<newline>---\<newline>''" by code_simp
  have r: "slideSources ''b\<newline>---\<newline>c'' = [''b'', ''c'']" by code_simp
  from slides_split_at_delimiter [of "''# A''" "''a''" "''b\<newline>---\<newline>c''"] h1 h2 r
  show ?thesis by blast
qed

text \<open>
  The claim as it is written asks for blank lines on both sides of the line of hyphens.
  The document \<open>"a\n---\nb"\<close> has no blank line at all and is cut into two slides.
\<close>

theorem split_without_blank_lines_counterexample:
  "slideSources ''a\<newline>---\<newline>b'' = [''a'', ''b'']
   \<and> \<not> includesText ''a\<newline>---\<newline>b'' ''\<newline>\<newline>''
   \<and> markdownToSlides ''a\<newline>---\<newline>b''
     = ''<section><p>a</p></section>\<newline><section><p>b</p></section>''"
  by code_simp

text \<open>
  Claim C3, at the document \<open>![a](b.png)\<close>: an image written in Markdown syntax. The link
  pass runs before the image pass and takes \<open>[a](b.png)\<close>, so the compiler returns a link
  behind an exclamation mark: no image element and no fragment marking. The image pass
  on its own turns the same text into an image element marked as a fragment, and the
  same image written as an HTML tag is marked by the compiler.
\<close>

theorem markdown_image_becomes_link:
  "markdownToSlides ''![a](b.png)'' = ''<section><p>!<a href=\"b.png\">a</a></p></section>''
   \<and> \<not> includesText (markdownToSlides ''![a](b.png)'') ''<img''
   \<and> \<not> includesText (markdownToSlides ''![a](b.png)'') ''fragment''
   \<and> replace link ''![a](b.png)'' = ''!<a href=\"b.png\">a</a>''
   \<and> replace markdownImage ''![a](b.png)'' = ''<img class=\"fragment\" src=\"b.png\" alt=\"a\" />''
   \<and> markdownToSlides ''<img src=\"b.png\" alt=\"a\" />''
     = ''<section><img class=\"fragment\" src=\"b.png\" alt=\"a\" /></section>''"
  by code_simp

text \<open>
  Claim C4, at the fenced code block \<open>"```\n# foo\n```"\<close>, whose one line starts with a hash.
  The header pass runs before the code-block pass and turns the line of the block into a
  heading, so the compiler returns the escaped markup of that heading inside the block
  and the text \<open># foo\<close> is gone. The code-block pass on its own keeps the line as it is
  written. In the block \<open>"```js\na\nb\n```"\<close> the paragraph pass, which runs after the
  code-block pass, wraps the second line of the body.
\<close>

theorem heading_inside_code_block:
  "replace (header ''# '' ''h1'') ''```\<newline># foo\<newline>```'' = ''```\<newline><h1>foo</h1>\<newline>```''
   \<and> markdownToSlides ''```\<newline># foo\<newline>```''
     = ''<section><pre><code>&lt;h1&gt;foo&lt;/h1&gt;</code></pre></section>''
   \<and> \<not> includesText (markdownToSlides ''```\<newline># foo\<newline>```'') ''# foo''
   \<and> replace codeBlock ''```\<newline># foo\<newline>```'' = ''<pre><code># foo</code></pre>''
   \<and> escapeHtml (trim ''# foo\<newline>'') = ''# foo''
   \<and> markdownToSlides ''```js\<newline>a\<newline>b\<newline>```''
     = ''<section><pre><code class=\"language-js\">a\<newline><p>b</code></pre></p></section>''"
  by code_simp

text \<open>
  Claim C5. The list block \<open>"- A\n  - B\n  - C\n- D"\<close> becomes one list with the top-level
  items \<open>A\<close> and \<open>D\<close> and with \<open>B\<close> and \<open>C\<close> in one list nested under \<open>A\<close>. In every call of
  the parser, the lines the loop meets before a line of the current depth (so outside
  the run of deeper lines collected behind a sibling), whose indent is not that of the
  current depth, are passed over: they add nothing to the result. A line of the current
  depth gives one item, marked as a fragment, and the run of deeper lines behind it is
  parsed one level deeper into the list nested in that item. The parser is a total
  function, so no list makes it fail.
\<close>

theorem nested_list_parsing:
  "listToHtml ''- A\<newline>  - B\<newline>  - C\<newline>- D''
     = ''<ul>\<newline><li class=\"fragment\">A\<newline><ul>\<newline><li class=\"fragment\">B</li>\<newline><li class=\"fragment\">C</li>\<newline></ul></li>\<newline><li class=\"fragment\">D</li>\<newline></ul>''
   \<and> replace unorderedList ''- A\<newline>  - B\<newline>  - C\<newline>- D''
     = listToHtml ''- A\<newline>  - B\<newline>  - C\<newline>- D''
   \<and> ((\<forall>it \<in> set skipped. indent it \<noteq> depth * 2) \<longrightarrow>
        parseLoop (skipped @ rest) depth = parseLoop rest depth
        \<and> parseList (skipped @ rest) depth = parseList rest depth)
   \<and> (indent sibling = depth * 2 \<and> (\<forall>it \<in> set nested. indent it > depth * 2)
        \<and> (rest = [] \<or> indent (hd rest) \<le> depth * 2) \<longrightarrow>
        parseLoop (sibling # nested @ rest) depth
          = (if nested = [] then ''<li class=\"fragment\">'' @ itemText sibling @ ''</li>\<newline>''
             else ''<li class=\"fragment\">'' @ itemText sibling @ ''\<newline>''
                  @ parseList nested (depth + 1) @ ''</li>\<newline>'')
            @ parseLoop rest depth)"
proof -
  have a: "listToHtml ''- A\<newline>  - B\<newline>  - C\<newline>- D''
     = ''<ul>\<newline><li class=\"fragment\">A\<newline><ul>\<newline><li class=\"fragment\">B</li>\<newline><li class=\"fragment\">C</li>\<newline></ul></li>\<newline><li class=\"fragment\">D</li>\<newline></ul>''"
    by code_simp
  have b: "replace unorderedList ''- A\<newline>  - B\<newline>  - C\<newline>- D''
     = listToHtml ''- A\<newline>  - B\<newline>  - C\<newline>- D''"
    by code_simp
  have c: "parseLoop (skipped @ rest) depth = parseLoop rest depth"
    if "\<forall>it \<in> set skipped. indent it \<noteq> depth * 2"
    using that by (intro parseLoop_skip) simp
  have d: "parseLoop (sibling # nested @ rest) depth
          = (if nested = [] then ''<li class=\"fragment\">'' @ itemText sibling @ ''</li>\<newline>''
             else ''<li class=\"fragment\">'' @ itemText sibling @ ''\<newline>''
                  @ parseList nested (depth + 1) @ ''</li>\<newline>'')
            @ parseLoop rest depth"
    if "indent sibling = depth * 2" "\<forall>it \<in> set nested. indent it > depth * 2"
       "rest = [] \<or> indent (hd rest) \<le> depth * 2"
    using that by (intro parseLoop_sibling) simp_all
  have e: "parseList (skipped @ rest) depth = parseList rest depth"
    if "\<forall>it \<in> set skipped. indent it \<noteq> depth * 2"
    using c [OF that] by (simp add: parseList_def)
  from a b c d e show ?thesis by blast
qed

theorem nested_list_parsing_witness:
  "parseLoop (\<lparr>indent = 0, itemText = ''A''\<rparr>
               # [\<lparr>indent = 2, itemText = ''B''\<rparr>] @ [\<lparr>indent = 0, itemText = ''D''\<rparr>]) 0
     = ''<li class=\"fragment\">A\<newline>'' @ parseList [\<lparr>indent = 2, itemText = ''B''\<rparr>] 1 @ ''</li>\<newline>''
       @ parseLoop [\<lparr>indent = 0, itemText = ''D''\<rparr>] 0
   \<and> parseList ([\<lparr>indent = 4, itemText = ''B''\<rparr>, \<lparr>indent = 1, itemText = ''C''\<rparr>]
               @ [\<lparr>indent = 0, itemText = ''A''\<rparr>]) 0
     = parseList [\<lparr>indent = 0, itemText = ''A''\<rparr>] 0
   \<and> parseList [\<lparr>indent = 0, itemText = ''A''\<rparr>] 0 = ''<ul>\<newline><li class=\"fragment\">A</li>\<newline></ul>''"
proof -
  have h: "\<forall>it \<in> set [\<lparr>indent = 4, itemText = ''B''\<rparr>, \<lparr>indent = 1, itemText = ''C''\<rparr>].
             indent it \<noteq> 0 * 2"
    by simp
  have r: "parseList [\<lparr>indent = 0, itemText = ''A''\<rparr>] 0 = ''<ul>\<newline><li class=\"fragment\">A</li>\<newline></ul>''"
    by code_simp
  have s: "parseLoop (\<lparr>indent = 0, itemText = ''A''\<rparr>
               # [\<lparr>indent = 2, itemText = ''B''\<rparr>] @ [\<lparr>indent = 0, itemText = ''D''\<rparr>]) 0
     = ''<li class=\"fragment\">A\<newline>'' @ parseList [\<lparr>indent = 2, itemText = ''B''\<rparr>] 1 @ ''</li>\<newline>''
       @ parseLoop [\<lparr>indent = 0, itemText = ''D''\<rparr>] 0"
    using nested_list_parsing
            [of "[]" 0 "[\<lparr>indent = 0, itemText = ''D''\<rparr>]" "\<lparr>indent = 0, itemText = ''A''\<rparr>"
                "[\<lparr>indent = 2, itemText = ''B''\<rparr>]"]
    by simp
  from nested_list_parsing
         [of "[\<lparr>indent = 4, itemText = ''B''\<rparr>, \<lparr>indent = 1, itemText = ''C''\<rparr>]" 0
             "[\<lparr>indent = 0, itemText = ''A''\<rparr>]"] h r s
  show ?thesis by blast
qed

text \<open>
  Claim C6, as the code has it. Two calls of \<open>storeImage\<close> with blobs of the same bytes
  both succeed and return the same identifier. The second call creates no further entry:
  the identifiers in the store are the same after it, the store holds one record under
  the identifier, the records under other identifiers are untouched and the total size
  is the same. The second call is not a no-op: \<open>put\<close> writes over the record, which then
  has the blob, the type and the time of the second call.
\<close>

theorem store_image_twice:
  assumes "fetchBlob url1 = Some b1"
    and "fetchBlob url2 = Some b2"
    and "blobBytes b1 = blobBytes b2"
  shows "\<exists>ident db1 db2.
           storeImage digest fetchBlob now1 url1 db = Inr (ident, db1)
         \<and> storeImage digest fetchBlob now2 url2 db1 = Inr (ident, db2)
         \<and> getAllImageIds db2 = getAllImageIds db1
         \<and> filter (\<lambda>r. imgId r = ident) db2
             = [\<lparr> imgId = ident, blob = b2, mimeType = blobType b2, createdAt = now2 \<rparr>]
         \<and> filter (\<lambda>r. imgId r \<noteq> ident) db2 = filter (\<lambda>r. imgId r \<noteq> ident) db1
         \<and> getStorageSize db2 = getStorageSize db1"
proof -
  let ?ident = "generateImageId digest b1"
  let ?r1 = "\<lparr> imgId = ?ident, blob = b1, mimeType = blobType b1, createdAt = now1 \<rparr>"
  let ?r2 = "\<lparr> imgId = ?ident, blob = b2, mimeType = blobType b2, createdAt = now2 \<rparr>"
  have same: "generateImageId digest b2 = ?ident"
    using assms(3) by (simp add: generateImageId_def)
  have k: "imgId ?r2 = imgId ?r1" by simp
  have s1: "storeImage digest fetchBlob now1 url1 db = Inr (?ident, storePut ?r1 db)"
    using assms(1) by (simp add: storeImage_def Let_def)
  have s2: "storeImage digest fetchBlob now2 url2 (storePut ?r1 db)
              = Inr (?ident, storePut ?r2 (storePut ?r1 db))"
    using assms(2) same by (simp add: storeImage_def Let_def)
  have keys: "getAllImageIds (storePut ?r2 (storePut ?r1 db)) = getAllImageIds (storePut ?r1 db)"
    unfolding getAllImageIds_def storeGetAllKeys_def storePut_twice [OF k]
    using k by (rule storePut_keys)
  have one: "filter (\<lambda>r. imgId r = ?ident) (storePut ?r2 (storePut ?r1 db)) = [?r2]"
    using storePut_one [of ?r2 "storePut ?r1 db"] by simp
  have others: "filter (\<lambda>r. imgId r \<noteq> ?ident) (storePut ?r2 (storePut ?r1 db))
                  = filter (\<lambda>r. imgId r \<noteq> ?ident) (storePut ?r1 db)"
    using storePut_others [of ?r2 "storePut ?r1 db"] by simp
  have size: "getStorageSize (storePut ?r2 (storePut ?r1 db)) = getStorageSize (storePut ?r1 db)"
    unfolding storePut_twice [OF k] storePut_size
    using assms(3) by (simp add: blobSize_def)
  show ?thesis
    using s1 s2 keys one others size by blast
qed

theorem store_image_twice_witness:
  "sampleFetch ''data:image/png;base64,YQ=='' = Some \<lparr> blobBytes = [0x61], blobType = ''image/png'' \<rparr>
   \<and> sampleFetch ''data:image/jpeg;base64,YQ=='' = Some \<lparr> blobBytes = [0x61], blobType = ''image/jpeg'' \<rparr>
   \<and> (\<exists>ident db1 db2.
           storeImage sampleDigest sampleFetch 1000 ''data:image/png;base64,YQ=='' [] = Inr (ident, db1)
         \<and> storeImage sampleDigest sampleFetch 2000 ''data:image/jpeg;base64,YQ=='' db1 = Inr (ident, db2)
         \<and> getAllImageIds db2 = getAllImageIds db1
         \<and> filter (\<lambda>r. imgId r = ident) db2
             = [\<lparr> imgId = ident, blob = \<lparr> blobBytes = [0x61], blobType = ''image/jpeg'' \<rparr>,
                  mimeType = ''image/jpeg'', createdAt = 2000 \<rparr>]
         \<and> filter (\<lambda>r. imgId r \<noteq> ident) db2 = filter (\<lambda>r. imgId r \<noteq> ident) db1
         \<and> getStorageSize db2 = getStorageSize db1)"
proof -
  have h1: "sampleFetch ''data:image/png;base64,YQ==''
              = Some \<lparr> blobBytes = [0x61], blobType = ''image/png'' \<rparr>"
    by (simp add: sampleFetch_def)
  have h2: "sampleFetch ''data:image/jpeg;base64,YQ==''
              = Some \<lparr> blobBytes = [0x61], blobType = ''image/jpeg'' \<rparr>"
    by (simp add: sampleFetch_def)
  have h3: "blobBytes \<lparr> blobBytes = [0x61], blobType = ''image/png'' \<rparr>
              = blobBytes \<lparr> blobBytes = [0x61], blobType = ''image/jpeg'' \<rparr>"
    by simp
  from store_image_twice
         [of sampleFetch "''data:image/png;base64,YQ==''"
             "\<lparr> blobBytes = [0x61], blobType = ''image/png'' \<rparr>"
             "''data:image/jpeg;base64,YQ==''"
             "\<lparr> blobBytes = [0x61], blobType = ''image/jpeg'' \<rparr>"
             sampleDigest 1000 "[]" 2000, OF h1 h2 h3] h1 h2
  show ?thesis by simp
qed

text \<open>
  The claim as it is written calls the second call a no-op. After the blob of one byte is
  stored as a PNG image at time 1000, storing the same byte as a JPEG image at time 2000
  returns the same identifier and leaves a store that differs from the store before it:
  the one record now has the second type and time, and \<open>getImage\<close> returns a different
  data URL.
\<close>

theorem store_image_twice_counterexample:
  "storeImage sampleDigest sampleFetch 1000 ''data:image/png;base64,YQ=='' []
     = Inr (''img-ca978112ca1bbdca'', sampleStore)
   \<and> storeImage sampleDigest sampleFetch 2000 ''data:image/jpeg;base64,YQ=='' sampleStore
     = Inr (''img-ca978112ca1bbdca'',
         [\<lparr> imgId = ''img-ca978112ca1bbdca'',
            blob = \<lparr> blobBytes = [0x61], blobType = ''image/jpeg'' \<rparr>,
            mimeType = ''image/jpeg'', createdAt = 2000 \<rparr>])
   \<and> sampleStore
     \<noteq> [\<lparr> imgId = ''img-ca978112ca1bbdca'',
            blob = \<lparr> blobBytes = [0x61], blobType = ''image/jpeg'' \<rparr>,
            mimeType = ''image/jpeg'', createdAt = 2000 \<rparr>]
   \<and> getImage sampleReader ''img-ca978112ca1bbdca'' sampleStore = Some ''data:image/png;base64,YQ==''
   \<and> getImage sampleReader ''img-ca978112ca1bbdca''
         [\<lparr> imgId = ''img-ca978112ca1bbdca'',
            blob = \<lparr> blobBytes = [0x61], blobType = ''image/jpeg'' \<rparr>,
            mimeType = ''image/jpeg'', createdAt = 2000 \<rparr>]
     = Some ''data:image/jpeg;base64,YQ==''"
  by code_simp

text \<open>
  Claim C7. \<open>cleanupUnusedImages\<close> leaves in the store exactly the records whose identifier
  occurs in the document text as a contiguous substring, each as it was, and deletes the
  others; the number it returns is the number of records deleted; and a second call with
  the same text, on the store the first call left, deletes nothing and returns 0.
\<close>

theorem garbage_collect_exact:
  "cleanupUnusedImages markdown db
     = (length (filter (\<lambda>r. \<not> includesText markdown (imgId r)) db),
        filter (\<lambda>r. includesText markdown (imgId r)) db)
   \<and> cleanupUnusedImages markdown (snd (cleanupUnusedImages markdown db))
     = (0, snd (cleanupUnusedImages markdown db))
   \<and> (includesText markdown ident \<longleftrightarrow> (\<exists>ps ss. markdown = ps @ ident @ ss))"
proof -
  have "filter (\<lambda>r. \<not> includesText markdown (imgId r))
          (filter (\<lambda>r. includesText markdown (imgId r)) db) = []"
    by (simp add: filter_empty_conv)
  then show ?thesis
    by (simp add: cleanup_result includesText_def sublist_def)
qed

text \<open>
  Claim C8, at a preview mounted with a document that is one image of the store, written
  as the tag the editor inserts, and then given the document \<open>two\<close> before the store has
  answered. The first pass finds an identifier and is suspended at \<open>getImage\<close>. The second
  pass finds none, so it completes inside its effect: the slide of \<open>two\<close> is applied. When
  the \<open>getImage\<close> of the first pass settles, that pass completes and its result, the
  slide of the image, is applied over the newer one and stays: no pass carries a
  sequence number, and a pass does not check that it is the most recent one before it
  calls \<open>setResolvedHtml\<close>.
\<close>

theorem stale_pass_applied:
  "markdownToSlides ''<img src=\"img-ca978112ca1bbdca\" alt=\"image\" />''
     = ''<section><img class=\"fragment\" src=\"img-ca978112ca1bbdca\" alt=\"image\" /></section>''
   \<and> markdownToSlides ''two'' = ''<section><p>two</p></section>''
   \<and> running (previewRun sampleReader sampleStore
         (initialPreview (markdownToSlides ''<img src=\"img-ca978112ca1bbdca\" alt=\"image\" />''))
         [Start (markdownToSlides ''<img src=\"img-ca978112ca1bbdca\" alt=\"image\" />'')])
     = [(1, \<lparr> passHtml = markdownToSlides ''<img src=\"img-ca978112ca1bbdca\" alt=\"image\" />'',
               waitingFor = [''img-ca978112ca1bbdca''] \<rparr>)]
   \<and> resolvedHtml (previewRun sampleReader sampleStore
         (initialPreview (markdownToSlides ''<img src=\"img-ca978112ca1bbdca\" alt=\"image\" />''))
         [Start (markdownToSlides ''<img src=\"img-ca978112ca1bbdca\" alt=\"image\" />''),
          Start (markdownToSlides ''two'')])
     = ''<section><p>two</p></section>''
   \<and> resolvedHtml (previewRun sampleReader sampleStore
         (initialPreview (markdownToSlides ''<img src=\"img-ca978112ca1bbdca\" alt=\"image\" />''))
         [Start (markdownToSlides ''<img src=\"img-ca978112ca1bbdca\" alt=\"image\" />''),
          Start (markdownToSlides ''two''),
          Settle 1])
     = ''<section><img class=\"fragment\" src=\"data:image/png;base64,YQ==\" alt=\"image\" /></section>''
   \<and> resolveImages sampleReader sampleStore
         (markdownToSlides ''<img src=\"img-ca978112ca1bbdca\" alt=\"image\" />'')
     = ''<section><img class=\"fragment\" src=\"data:image/png;base64,YQ==\" alt=\"image\" /></section>''
   \<and> resolveImages sampleReader sampleStore (markdownToSlides ''two'')
     = ''<section><p>two</p></section>''"
  by code_simp

text \<open>
  Claim C9, at a document of two slides whose first slide is an image reference with the
  alternative text \<open>$'\<close>, the store holding the image. \<open>String.prototype.replace\<close> reads
  \<open>$'\<close> in the replacement text as the text behind the match, so the export copies the
  rest of the document, delimiter included, into the alternative text: the exported
  document compiles to three slides, while the document with its identifier resolved
  inline compiles to two. The last two equations are the compiled slides of the exported
  document and the compiled slides of the document with the identifier resolved.
\<close>

theorem export_breaks_slide_count:
  "exportWithInlinedImages sampleReader sampleStore
     (''![$'' @ [CHR 0x27] @ ''](img-ca978112ca1bbdca)\<newline>---\<newline>x'')
     = ''![\<newline>---\<newline>x](data:image/png;base64,YQ==)\<newline>---\<newline>x''
   \<and> slideSources ''![\<newline>---\<newline>x](data:image/png;base64,YQ==)\<newline>---\<newline>x''
     = [''!['', ''x](data:image/png;base64,YQ==)'', ''x'']
   \<and> resolveImages sampleReader sampleStore
       (''![$'' @ [CHR 0x27] @ ''](img-ca978112ca1bbdca)\<newline>---\<newline>x'')
     = ''![$'' @ [CHR 0x27] @ ''](data:image/png;base64,YQ==)\<newline>---\<newline>x''
   \<and> slideSources (''![$'' @ [CHR 0x27] @ ''](data:image/png;base64,YQ==)\<newline>---\<newline>x'')
     = [''![$'' @ [CHR 0x27] @ ''](data:image/png;base64,YQ==)'', ''x'']
   \<and> slideSources (''![$'' @ [CHR 0x27] @ ''](img-ca978112ca1bbdca)\<newline>---\<newline>x'')
     = [''![$'' @ [CHR 0x27] @ ''](img-ca978112ca1bbdca)'', ''x'']
   \<and> markdownToSlides (exportWithInlinedImages sampleReader sampleStore
       (''![$'' @ [CHR 0x27] @ ''](img-ca978112ca1bbdca)\<newline>---\<newline>x''))
     = ''<section><p>![</p></section>\<newline><section><p>x](data:image/png;base64,YQ==)</p></section>\<newline><section><p>x</p></section>''
   \<and> resolveImages sampleReader sampleStore
       (markdownToSlides (''![$'' @ [CHR 0x27] @ ''](img-ca978112ca1bbdca)\<newline>---\<newline>x''))
     = ''<section><p>!<a href=\"data:image/png;base64,YQ==\">$'' @ [CHR 0x27]
       @ ''</a></p></section>\<newline><section><p>x</p></section>''"
  by code_simp

text \<open>
  Claim C10. An inline code span does not protect its contents from the emphasis passes:
  for the line \<open>`**a**`\<close> the inline-code pass gives \<open><code>**a**</code>\<close> and the bold pass,
  which runs over the whole text afterwards, turns the markers inside the span into
  \<open><strong>\<close>, so that the line is rendered as \<open><code><strong>a</strong></code>\<close>; the
  compiler returns it inside the paragraph and the section of its slide.
\<close>

theorem inline_code_emphasis:
  "replace inlineCode ''`**a**`'' = ''<code>**a**</code>''
   \<and> replace italic (replace bold (replace inlineCode ''`**a**`''))
     = ''<code><strong>a</strong></code>''
   \<and> markdownToSlides ''`**a**`'' = ''<section><p><code><strong>a</strong></code></p></section>''"
  by code_simp

end
